theory Spec2Isabelle
  imports Main "HOL-Library.Multiset"
begin

section \<open>Data model\<close>

subsection \<open>Python values, dictionaries and exceptions\<close>

text \<open>
  Run-time values that flow through the resolvers.  A Python dict keeps its insertion
  order, so it is an association list with distinct keys.
\<close>

datatype pyval =
    PNone
  | PBool bool
  | PInt int
  | PStr string
  | PList "pyval list"
  | PDict "(pyval \<times> pyval) list"

text \<open>The exceptions that the modelled code can raise.\<close>

datatype error =
    MongoEngineConversionError string
  | AttributeError
  | TypeError
  | KeyError
  | ValueError
  | AssertionError


text \<open>\<open>d.get(k)\<close>, \<open>d[k] = v\<close>, \<open>d.pop(k, None)\<close> and \<open>d.update(e)\<close> on insertion-ordered dicts.\<close>

definition dict_get :: "('k \<times> 'v) list \<Rightarrow> 'k \<Rightarrow> 'v option" where
  "dict_get d k = map_of d k"

definition dict_set :: "('k \<times> 'v) list \<Rightarrow> 'k \<Rightarrow> 'v \<Rightarrow> ('k \<times> 'v) list" where
  "dict_set d k v =
     (if k \<in> fst ` set d then map (\<lambda>(k', v'). if k' = k then (k', v) else (k', v')) d
      else d @ [(k, v)])"


fun dict_update :: "('k \<times> 'v) list \<Rightarrow> ('k \<times> 'v) list \<Rightarrow> ('k \<times> 'v) list" where
  "dict_update d [] = d"
| "dict_update d ((k, v) # e) = dict_update (dict_set d k v) e"

subsection \<open>API types (graphene)\<close>

text \<open>
  The objects that appear in type position.  The scalar classes, the fixed geo/file object
  types, object types bound to a document model, synthesized unions and map entry types
  are classes; \<open>List\<close> and \<open>NonNull\<close> are structure instances wrapping an inner type.
  The list and map conversions also handle, in the same variable, an unmounted instance
  of a class (\<open>Inst\<close>, its keyword arguments dropped), Python's \<open>None\<close> (\<open>NoneValue\<close>),
  \<open>type(None)\<close> (\<open>NoneType\<close>) and the type of a class or of a structure instance
  (\<open>TypeOf\<close>).  Reading the \<open>type\<close> attribute of a mounted Dynamic gives its closure
  (\<open>Closure\<close>, with the model it looks up), and that of a connection field gives the
  connection class of its node type (\<open>ConnectionType\<close>).

  An object type carries what the code reads from its \<open>_meta\<close>: the name, whether one of
  its interfaces is a relay Node, whether its model is an embedded document, and the
  \<open>_type\<close> of its \<open>id\<close> field when it has one.  An entry type carries a number standing
  for the identity of the class object.
\<close>

datatype gtype =
    String | ID | IntT | Boolean | Float | DateTime | JSONString
  | PointFieldType | PolygonFieldType | MultiPolygonFieldType | FileFieldType
  | ObjectType (ot_name: string) (ot_node: bool) (ot_embedded: bool) (ot_id: "gtype option")
  | UnionType string "gtype list"
  | Entry nat string gtype
  | List gtype
  | NonNull gtype
  | Inst gtype
  | NoneValue
  | NoneType
  | TypeOf gtype
  | Closure string
  | ConnectionType gtype

text \<open>\<open>value_type._meta.name\<close>: classes have it, structure instances and NoneType do not.\<close>

fun meta_name :: "gtype \<Rightarrow> string option" where
  "meta_name String = Some ''String''"
| "meta_name ID = Some ''ID''"
| "meta_name IntT = Some ''Int''"
| "meta_name Boolean = Some ''Boolean''"
| "meta_name Float = Some ''Float''"
| "meta_name DateTime = Some ''DateTime''"
| "meta_name JSONString = Some ''JSONString''"
| "meta_name PointFieldType = Some ''PointFieldType''"
| "meta_name PolygonFieldType = Some ''PolygonFieldType''"
| "meta_name MultiPolygonFieldType = Some ''MultiPolygonFieldType''"
| "meta_name FileFieldType = Some ''FileFieldType''"
| "meta_name (ObjectType n _ _ _) = Some n"
| "meta_name (UnionType n _) = Some n"
| "meta_name (Entry _ n _) = Some n"
| "meta_name (List _) = None"
| "meta_name (NonNull _) = None"
| "meta_name (Inst t) = meta_name t"
| "meta_name NoneValue = None"
| "meta_name NoneType = None"
| "meta_name (TypeOf _) = None"
| "meta_name (Closure _) = None"
| "meta_name (ConnectionType t) = map_option (\<lambda>n. n @ ''Connection'') (meta_name t)"

text \<open>Python's \<open>type(x)\<close>.\<close>

fun py_type :: "gtype \<Rightarrow> gtype" where
  "py_type (Inst t) = t"
| "py_type NoneValue = NoneType"
| "py_type t = TypeOf t"

text \<open>\<open>issubclass(t, graphene.Scalar)\<close> and \<open>isinstance(t, Structure)\<close>.\<close>

definition is_scalar :: "gtype \<Rightarrow> bool" where
  "is_scalar t = (t \<in> {String, ID, IntT, Boolean, Float, DateTime, JSONString})"

fun is_structure :: "gtype \<Rightarrow> bool" where
  "is_structure (List _) = True"
| "is_structure (NonNull _) = True"
| "is_structure _ = False"

text \<open>\<open>graphene.is_node\<close>: an object type class one of whose interfaces is a Node.\<close>

fun is_node :: "gtype \<Rightarrow> bool" where
  "is_node (ObjectType _ node _ _) = node"
| "is_node _ = False"

subsection \<open>Persisted field descriptors (mongoengine)\<close>

text \<open>
  The field classes on which the conversion table dispatches.  \<open>OtherField c\<close> stands for
  any field class none of whose ancestors is registered in the table; \<open>c\<close> is the text
  Python prints for the class.
\<close>

datatype kind =
    EmailField | StringField | URLField
  | UUIDField | ObjectIdField
  | IntField | LongField | SequenceField
  | BooleanField
  | DecimalField | FloatField
  | DateTimeField
  | DictField
  | MapField
  | PointField | PolygonField | MultiPolygonField | FileField
  | ListField | EmbeddedDocumentListField
  | GenericEmbeddedDocumentField | GenericReferenceField
  | EmbeddedDocumentField | ReferenceField | CachedReferenceField
  | LazyReferenceField
  | OtherField string

text \<open>
  The attributes of a field object that the code reads. \<open>py_str\<close> is \<open>str(field)\<close>,
  \<open>owner_document\<close> is \<open>field._owner_document.__name__\<close>, \<open>document_type\<close> names the
  target model of a reference or embedded-document field, and \<open>choices\<close> names the
  allowed target models of a generic field.
\<close>

record finfo =
  required :: bool
  db_field :: string
  owner_document :: string
  document_type :: string
  choices :: "string list"
  py_str :: string

text \<open>A field object: its class, its attributes, and \<open>field.field\<close> for containers.\<close>

datatype mfield = MField (kind: kind) (info: finfo) (field: "mfield option")

subsection \<open>API field descriptors\<close>

text \<open>
  What a conversion returns: an unmounted scalar instance such as
  \<open>graphene.String(description=d, required=r)\<close>, a \<open>graphene.List\<close> instance with its
  keyword arguments, a \<open>graphene.Field\<close>, the map helper's field, a \<open>graphene.Dynamic\<close>
  wrapping a closure, or a connection field.  The closure of a Dynamic reads the registry
  and the description when it is called; it is kept as the model name, the source
  field and whether the lazy resolver is attached.  \<open>Field\<close>, the map helper's field and
  the connection field are instances of \<open>graphene.Field\<close>.
\<close>

datatype gfield =
    Unmounted gtype "string option" bool
  | ListInstance gtype "string option" bool
  | Field gtype "string option" bool
  | MapFieldHelper gtype "string option" bool
  | Dynamic string mfield bool
  | ConnectionField gtype

subsection \<open>Process-wide state and the environment\<close>

text \<open>
  \<open>entry_type_lookup\<close> is the module-level cache of \<open>helper_fields\<close>; \<open>allocated\<close> counts
  the classes synthesized so far and gives each new one its identity.
\<close>

record world =
  entry_type_lookup :: "(string \<times> gtype) list"
  allocated :: nat

text \<open>
  The parts of the repository and of its libraries that the modelled functions call but
  that are not among the source files at hand are parameters:
  \<open>get_field_description\<close> (the utility module), \<open>get_type_for_model\<close> (the type
  registry) and the token drawn by \<open>uuid.uuid1()\<close> for the n-th synthesized class.
\<close>

record env =
  get_field_description :: "mfield \<Rightarrow> string option"
  get_type_for_model :: "string \<Rightarrow> gtype option"
  uuid_hex :: "nat \<Rightarrow> string"

section \<open>Map projection helper\<close>

text \<open>
  \<open>get_entry_type\<close>: look the value type's declared name up in the cache; on a miss,
  synthesize the class \<open><name>Entry\<close> and store it under the name.
\<close>

definition get_entry_type :: "gtype \<Rightarrow> world \<Rightarrow> (error + gtype) \<times> world" where
  "get_entry_type value_type w =
     (case meta_name value_type of
        None \<Rightarrow> (Inl AttributeError, w)
      | Some name \<Rightarrow>
          (case dict_get (entry_type_lookup w) name of
             Some entry_type \<Rightarrow> (Inr entry_type, w)
           | None \<Rightarrow>
               (let entry_type = Entry (allocated w) (name @ ''Entry'') value_type
                in (Inr entry_type,
                    w\<lparr>entry_type_lookup := dict_set (entry_type_lookup w) name entry_type,
                      allocated := Suc (allocated w)\<rparr>))))"

text \<open>The constructor of the helper field: its type is a list of the entry type.\<close>

definition MapField_init ::
  "gtype \<Rightarrow> string option \<Rightarrow> bool \<Rightarrow> world \<Rightarrow> (error + gfield option) \<times> world" where
  "MapField_init value_type description req w =
     (case get_entry_type value_type w of
        (Inl e, w') \<Rightarrow> (Inl e, w')
      | (Inr entry_type, w') \<Rightarrow> (Inr (Some (MapFieldHelper (List entry_type) description req)), w'))"

text \<open>\<open>resolve_map\<close>: only a dict has \<open>items()\<close>.\<close>

fun resolve_map :: "pyval \<Rightarrow> error + pyval" where
  "resolve_map (PDict kvs) =
     Inr (PList (map (\<lambda>(k, v). PDict [(PStr ''key'', k), (PStr ''value'', v)]) kvs))"
| "resolve_map _ = Inl AttributeError"

text \<open>
  What a resolver hands back: a value or a raised exception, either at once or as a
  thenable that settles later.
\<close>

datatype 'a settled = Now 'a | Later 'a

text \<open>
  \<open>maybe_thenable\<close> of the API library: chain \<open>on_resolve\<close> after a thenable, call it at
  once otherwise.  An exception of the resolver itself propagates.
\<close>

fun maybe_thenable ::
  "(error + pyval) settled \<Rightarrow> (pyval \<Rightarrow> error + pyval) \<Rightarrow> (error + pyval) settled" where
  "maybe_thenable (Now (Inl e)) on_resolve = Now (Inl e)"
| "maybe_thenable (Now (Inr v)) on_resolve = Now (on_resolve v)"
| "maybe_thenable (Later (Inl e)) on_resolve = Later (Inl e)"
| "maybe_thenable (Later (Inr v)) on_resolve = Later (on_resolve v)"

definition map_resolver ::
  "('r \<Rightarrow> 'i \<Rightarrow> 'a \<Rightarrow> (error + pyval) settled) \<Rightarrow> 'r \<Rightarrow> 'i \<Rightarrow> 'a \<Rightarrow> (error + pyval) settled" where
  "map_resolver resolver root ctx args =
     (let resolved = resolver root ctx args;
          on_resolve = resolve_map
      in maybe_thenable resolved on_resolve)"

section \<open>Field conversion\<close>

text \<open>The name of a field class, and the text Python prints for the class.\<close>

fun class_name :: "kind \<Rightarrow> string" where
  "class_name EmailField = ''EmailField''"
| "class_name StringField = ''StringField''"
| "class_name URLField = ''URLField''"
| "class_name UUIDField = ''UUIDField''"
| "class_name ObjectIdField = ''ObjectIdField''"
| "class_name IntField = ''IntField''"
| "class_name LongField = ''LongField''"
| "class_name SequenceField = ''SequenceField''"
| "class_name BooleanField = ''BooleanField''"
| "class_name DecimalField = ''DecimalField''"
| "class_name FloatField = ''FloatField''"
| "class_name DateTimeField = ''DateTimeField''"
| "class_name DictField = ''DictField''"
| "class_name MapField = ''MapField''"
| "class_name PointField = ''PointField''"
| "class_name PolygonField = ''PolygonField''"
| "class_name MultiPolygonField = ''MultiPolygonField''"
| "class_name FileField = ''FileField''"
| "class_name ListField = ''ListField''"
| "class_name EmbeddedDocumentListField = ''EmbeddedDocumentListField''"
| "class_name GenericEmbeddedDocumentField = ''GenericEmbeddedDocumentField''"
| "class_name GenericReferenceField = ''GenericReferenceField''"
| "class_name EmbeddedDocumentField = ''EmbeddedDocumentField''"
| "class_name ReferenceField = ''ReferenceField''"
| "class_name CachedReferenceField = ''CachedReferenceField''"
| "class_name LazyReferenceField = ''LazyReferenceField''"
| "class_name (OtherField c) = c"

fun class_str :: "kind \<Rightarrow> string" where
  "class_str (OtherField c) = c"
| "class_str k = ''<class 'mongoengine.fields.'' @ class_name k @ [CHR 0x27, CHR ''>'']"

text \<open>
  The default of the dispatch table: raise, with the field and its class in the message.
  The second function is the same call on \<open>None\<close>, which a container without an element
  descriptor hands over.
\<close>

definition conversion_message :: "string \<Rightarrow> string \<Rightarrow> string" where
  "conversion_message f c =
     ''Don't know how to convert the MongoEngine field '' @ f @ '' ('' @ c @ '')''"

definition convert_default :: "mfield \<Rightarrow> error" where
  "convert_default fld =
     MongoEngineConversionError (conversion_message (py_str (info fld)) (class_str (kind fld)))"

definition convert_default_None :: error where
  "convert_default_None =
     MongoEngineConversionError (conversion_message ''None'' ''<class 'NoneType'>'')"

subsection \<open>Scalars\<close>

definition convert_field_to_string :: "env \<Rightarrow> mfield \<Rightarrow> gfield" where
  "convert_field_to_string env fld =
     Unmounted String (get_field_description env fld) (required (info fld))"

definition convert_field_to_id :: "env \<Rightarrow> mfield \<Rightarrow> gfield" where
  "convert_field_to_id env fld =
     Unmounted ID (get_field_description env fld) (required (info fld))"

definition convert_field_to_int :: "env \<Rightarrow> mfield \<Rightarrow> gfield" where
  "convert_field_to_int env fld =
     Unmounted IntT (get_field_description env fld) (required (info fld))"

definition convert_field_to_boolean :: "env \<Rightarrow> mfield \<Rightarrow> gfield" where
  "convert_field_to_boolean env fld =
     Unmounted Boolean (get_field_description env fld) (required (info fld))"

definition convert_field_to_float :: "env \<Rightarrow> mfield \<Rightarrow> gfield" where
  "convert_field_to_float env fld =
     Unmounted Float (get_field_description env fld) (required (info fld))"

definition convert_field_to_datetime :: "env \<Rightarrow> mfield \<Rightarrow> gfield" where
  "convert_field_to_datetime env fld =
     Unmounted DateTime (get_field_description env fld) (required (info fld))"

definition convert_field_to_jsonstring :: "env \<Rightarrow> mfield \<Rightarrow> gfield" where
  "convert_field_to_jsonstring env fld =
     Unmounted JSONString (get_field_description env fld) (required (info fld))"

subsection \<open>Geo and file kinds\<close>

text \<open>\<open>graphene.Field(T)\<close> with no keyword argument: no description, not required.\<close>

definition convert_point_to_field :: "env \<Rightarrow> mfield \<Rightarrow> gfield" where
  "convert_point_to_field env fld = Field PointFieldType None False"

definition convert_polygon_to_field :: "env \<Rightarrow> mfield \<Rightarrow> gfield" where
  "convert_polygon_to_field env fld = Field PolygonFieldType None False"

definition convert_multipolygon_to_field :: "env \<Rightarrow> mfield \<Rightarrow> gfield" where
  "convert_multipolygon_to_field env fld = Field MultiPolygonFieldType None False"

definition convert_file_to_field :: "env \<Rightarrow> mfield \<Rightarrow> gfield" where
  "convert_file_to_field env fld = Field FileFieldType None False"

subsection \<open>References\<close>

text \<open>
  \<open>convert_field_to_dynamic\<close> and \<open>convert_lazy_field_to_dynamic\<close> wrap the closure
  \<open>dynamic_type\<close>; \<open>get_type\<close> of a Dynamic calls it.  The field it builds has a
  description and no \<open>required\<close> argument.
\<close>

definition convert_field_to_dynamic :: "env \<Rightarrow> mfield \<Rightarrow> gfield" where
  "convert_field_to_dynamic env fld = Dynamic (document_type (info fld)) fld False"

definition convert_lazy_field_to_dynamic :: "env \<Rightarrow> mfield \<Rightarrow> gfield" where
  "convert_lazy_field_to_dynamic env fld = Dynamic (document_type (info fld)) fld True"

definition dynamic_type :: "env \<Rightarrow> string \<Rightarrow> mfield \<Rightarrow> gfield option" where
  "dynamic_type env model fld =
     (case get_type_for_model env model of
        None \<Rightarrow> None
      | Some t \<Rightarrow> Some (Field t (get_field_description env fld) False))"

text \<open>
  The \<open>_type\<close> attribute of a \<open>graphene.Field\<close>: the type given to the constructor, wrapped
  in \<open>NonNull\<close> when \<open>required\<close> is set.
\<close>

definition Field_type :: "gtype \<Rightarrow> bool \<Rightarrow> gtype" where
  "Field_type t req = (if req then NonNull t else t)"

text \<open>\<open>isinstance(field.field, (ReferenceField, EmbeddedDocumentField))\<close>.\<close>

definition element_is_relation :: "mfield \<Rightarrow> bool" where
  "element_is_relation fld =
     (case field fld of
        None \<Rightarrow> False
      | Some f \<Rightarrow> kind f = ReferenceField \<or> kind f = EmbeddedDocumentField)"

subsection \<open>Maps\<close>

text \<open>
  \<open>convert_field_to_map\<close> after its first line; \<open>base\<close> is what the element descriptor
  converted to.  The second function is the part after the Dynamic has been resolved.
\<close>

definition map_of_base_type ::
  "env \<Rightarrow> mfield \<Rightarrow> gtype \<Rightarrow> world \<Rightarrow> (error + gfield option) \<times> world" where
  "map_of_base_type env fld base_type w =
     (let base_type' =
            (if \<not> is_structure base_type \<and> \<not> element_is_relation fld then py_type base_type
             else base_type)
      in MapField_init base_type' (get_field_description env fld) (required (info fld)) w)"

definition convert_field_to_map ::
  "env \<Rightarrow> mfield \<Rightarrow> gfield option \<Rightarrow> world \<Rightarrow> (error + gfield option) \<times> world" where
  "convert_field_to_map env fld base w =
     (case base of
        Some (Field t d r) \<Rightarrow>
          MapField_init (Field_type t r) (get_field_description env fld) (required (info fld)) w
      | Some (MapFieldHelper t d r) \<Rightarrow>
          MapField_init (Field_type t r) (get_field_description env fld) (required (info fld)) w
      | Some (ConnectionField t) \<Rightarrow>
          MapField_init t (get_field_description env fld) (required (info fld)) w
      | Some (Dynamic model f lz) \<Rightarrow>
          (case dynamic_type env model f of
             None \<Rightarrow> (Inr None, w)
           | Some g \<Rightarrow>
               (case g of
                  Field t d r \<Rightarrow> map_of_base_type env fld (Field_type t r) w
                | _ \<Rightarrow> (Inl AttributeError, w)))
      | Some (Unmounted t d r) \<Rightarrow> map_of_base_type env fld (Inst t) w
      | Some (ListInstance t d r) \<Rightarrow> map_of_base_type env fld (List t) w
      | None \<Rightarrow> map_of_base_type env fld NoneValue w)"

subsection \<open>Lists\<close>

text \<open>
  \<open>convert_field_to_list\<close> after its first line, in the same two parts.  The connection
  field is built by the class named in the node type's \<open>connection_field_class\<close> option.
\<close>

definition list_of_base_type ::
  "env \<Rightarrow> mfield \<Rightarrow> gtype \<Rightarrow> world \<Rightarrow> (error + gfield option) \<times> world" where
  "list_of_base_type env fld base_type w =
     (if is_node base_type then (Inr (Some (ConnectionField base_type)), w)
      else
        (let base_type' =
               (if \<not> is_structure base_type \<and> \<not> element_is_relation fld then py_type base_type
                else base_type)
         in (Inr (Some (ListInstance base_type' (get_field_description env fld)
                           (required (info fld)))), w)))"

definition convert_field_to_list ::
  "env \<Rightarrow> mfield \<Rightarrow> gfield option \<Rightarrow> world \<Rightarrow> (error + gfield option) \<times> world" where
  "convert_field_to_list env fld base w =
     (case base of
        Some (Field t d r) \<Rightarrow>
          (Inr (Some (ListInstance (Field_type t r) (get_field_description env fld)
                        (required (info fld)))), w)
      | Some (MapFieldHelper t d r) \<Rightarrow>
          (Inr (Some (ListInstance (Field_type t r) (get_field_description env fld)
                        (required (info fld)))), w)
      | Some (ConnectionField t) \<Rightarrow>
          (Inr (Some (ListInstance t (get_field_description env fld) (required (info fld)))), w)
      | Some (Dynamic model f lz) \<Rightarrow>
          (case dynamic_type env model f of
             None \<Rightarrow> (Inr None, w)
           | Some g \<Rightarrow>
               (case g of
                  Field t d r \<Rightarrow> list_of_base_type env fld (Field_type t r) w
                | _ \<Rightarrow> (Inl AttributeError, w)))
      | Some (Unmounted t d r) \<Rightarrow> list_of_base_type env fld (Inst t) w
      | Some (ListInstance t d r) \<Rightarrow> list_of_base_type env fld (List t) w
      | None \<Rightarrow> list_of_base_type env fld NoneValue w)"

subsection \<open>Generic references\<close>

text \<open>
  The loop of \<open>convert_field_to_union\<close>: each choice becomes a fresh reference (or
  embedded-document) field, which converts to a Dynamic; its type is kept when the
  registry knows the target.
\<close>

definition choice_field :: "kind \<Rightarrow> string \<Rightarrow> mfield" where
  "choice_field k choice =
     MField k \<lparr>required = False, db_field = [], owner_document = [], document_type = choice,
               choices = [], py_str = []\<rparr> None"

fun union_types :: "env \<Rightarrow> mfield \<Rightarrow> string list \<Rightarrow> gtype list \<Rightarrow> gtype list" where
  "union_types env fld [] types = types"
| "union_types env fld (choice # rest) types =
     (let f = (if kind fld = GenericReferenceField then choice_field ReferenceField choice
               else choice_field EmbeddedDocumentField choice);
          g = convert_field_to_dynamic env f
      in case g of
           Dynamic model f' lz \<Rightarrow>
             (case dynamic_type env model f' of
                Some (Field t d r) \<Rightarrow> union_types env fld rest (types @ [Field_type t r])
              | _ \<Rightarrow> union_types env fld rest types)
         | _ \<Rightarrow> union_types env fld rest types)"

definition convert_field_to_union ::
  "env \<Rightarrow> mfield \<Rightarrow> world \<Rightarrow> (error + gfield option) \<times> world" where
  "convert_field_to_union env fld w =
     (let types = union_types env fld (choices (info fld)) []
      in if length types = 0 then (Inr None, w)
         else
           (let name = owner_document (info fld) @ ''_'' @ db_field (info fld) @ ''_union_''
                         @ uuid_hex env (allocated w)
            in (Inr (Some (Field (UnionType name types) None False)),
                w\<lparr>allocated := Suc (allocated w)\<rparr>)))"

subsection \<open>The dispatch table\<close>

text \<open>
  The table is entered in two ways.  The connection field and the union loop pass the
  registry as the second positional argument; the list and map converters pass it by
  keyword, \<open>registry=registry\<close>, when they convert their element.  Every registered
  function names its second parameter \<open>registry\<close>, except
  \<open>convert_multipolygon_to_field\<close>, which names it \<open>register\<close>: called by keyword it
  raises a type error.  \<open>by_keyword\<close> says which way the call is made.
\<close>

fun convert_mongoengine_field_call ::
  "env \<Rightarrow> bool \<Rightarrow> mfield \<Rightarrow> world \<Rightarrow> (error + gfield option) \<times> world" where
  "convert_mongoengine_field_call env by_keyword (MField EmailField i fo) w =
     (Inr (Some (convert_field_to_string env (MField EmailField i fo))), w)"
| "convert_mongoengine_field_call env by_keyword (MField StringField i fo) w =
     (Inr (Some (convert_field_to_string env (MField StringField i fo))), w)"
| "convert_mongoengine_field_call env by_keyword (MField URLField i fo) w =
     (Inr (Some (convert_field_to_string env (MField URLField i fo))), w)"
| "convert_mongoengine_field_call env by_keyword (MField UUIDField i fo) w =
     (Inr (Some (convert_field_to_id env (MField UUIDField i fo))), w)"
| "convert_mongoengine_field_call env by_keyword (MField ObjectIdField i fo) w =
     (Inr (Some (convert_field_to_id env (MField ObjectIdField i fo))), w)"
| "convert_mongoengine_field_call env by_keyword (MField IntField i fo) w =
     (Inr (Some (convert_field_to_int env (MField IntField i fo))), w)"
| "convert_mongoengine_field_call env by_keyword (MField LongField i fo) w =
     (Inr (Some (convert_field_to_int env (MField LongField i fo))), w)"
| "convert_mongoengine_field_call env by_keyword (MField SequenceField i fo) w =
     (Inr (Some (convert_field_to_int env (MField SequenceField i fo))), w)"
| "convert_mongoengine_field_call env by_keyword (MField BooleanField i fo) w =
     (Inr (Some (convert_field_to_boolean env (MField BooleanField i fo))), w)"
| "convert_mongoengine_field_call env by_keyword (MField DecimalField i fo) w =
     (Inr (Some (convert_field_to_float env (MField DecimalField i fo))), w)"
| "convert_mongoengine_field_call env by_keyword (MField FloatField i fo) w =
     (Inr (Some (convert_field_to_float env (MField FloatField i fo))), w)"
| "convert_mongoengine_field_call env by_keyword (MField DateTimeField i fo) w =
     (Inr (Some (convert_field_to_datetime env (MField DateTimeField i fo))), w)"
| "convert_mongoengine_field_call env by_keyword (MField DictField i fo) w =
     (Inr (Some (convert_field_to_jsonstring env (MField DictField i fo))), w)"
| "convert_mongoengine_field_call env by_keyword (MField MapField i None) w = (Inl convert_default_None, w)"
| "convert_mongoengine_field_call env by_keyword (MField MapField i (Some f)) w =
     (case convert_mongoengine_field_call env True f w of
        (Inl e, w') \<Rightarrow> (Inl e, w')
      | (Inr base, w') \<Rightarrow> convert_field_to_map env (MField MapField i (Some f)) base w')"
| "convert_mongoengine_field_call env by_keyword (MField PointField i fo) w =
     (Inr (Some (convert_point_to_field env (MField PointField i fo))), w)"
| "convert_mongoengine_field_call env by_keyword (MField PolygonField i fo) w =
     (Inr (Some (convert_polygon_to_field env (MField PolygonField i fo))), w)"
| "convert_mongoengine_field_call env by_keyword (MField MultiPolygonField i fo) w =
     (if by_keyword then (Inl TypeError, w)
      else (Inr (Some (convert_multipolygon_to_field env (MField MultiPolygonField i fo))), w))"
| "convert_mongoengine_field_call env by_keyword (MField FileField i fo) w =
     (Inr (Some (convert_file_to_field env (MField FileField i fo))), w)"
| "convert_mongoengine_field_call env by_keyword (MField ListField i None) w = (Inl convert_default_None, w)"
| "convert_mongoengine_field_call env by_keyword (MField ListField i (Some f)) w =
     (case convert_mongoengine_field_call env True f w of
        (Inl e, w') \<Rightarrow> (Inl e, w')
      | (Inr base, w') \<Rightarrow> convert_field_to_list env (MField ListField i (Some f)) base w')"
| "convert_mongoengine_field_call env by_keyword (MField EmbeddedDocumentListField i None) w =
     (Inl convert_default_None, w)"
| "convert_mongoengine_field_call env by_keyword (MField EmbeddedDocumentListField i (Some f)) w =
     (case convert_mongoengine_field_call env True f w of
        (Inl e, w') \<Rightarrow> (Inl e, w')
      | (Inr base, w') \<Rightarrow>
          convert_field_to_list env (MField EmbeddedDocumentListField i (Some f)) base w')"
| "convert_mongoengine_field_call env by_keyword (MField GenericEmbeddedDocumentField i fo) w =
     convert_field_to_union env (MField GenericEmbeddedDocumentField i fo) w"
| "convert_mongoengine_field_call env by_keyword (MField GenericReferenceField i fo) w =
     convert_field_to_union env (MField GenericReferenceField i fo) w"
| "convert_mongoengine_field_call env by_keyword (MField EmbeddedDocumentField i fo) w =
     (Inr (Some (convert_field_to_dynamic env (MField EmbeddedDocumentField i fo))), w)"
| "convert_mongoengine_field_call env by_keyword (MField ReferenceField i fo) w =
     (Inr (Some (convert_field_to_dynamic env (MField ReferenceField i fo))), w)"
| "convert_mongoengine_field_call env by_keyword (MField CachedReferenceField i fo) w =
     (Inr (Some (convert_field_to_dynamic env (MField CachedReferenceField i fo))), w)"
| "convert_mongoengine_field_call env by_keyword (MField LazyReferenceField i fo) w =
     (Inr (Some (convert_lazy_field_to_dynamic env (MField LazyReferenceField i fo))), w)"
| "convert_mongoengine_field_call env by_keyword (MField (OtherField c) i fo) w =
     (Inl (convert_default (MField (OtherField c) i fo)), w)"

text \<open>The call with the registry in second position.\<close>

definition convert_mongoengine_field ::
  "env \<Rightarrow> mfield \<Rightarrow> world \<Rightarrow> (error + gfield option) \<times> world" where
  "convert_mongoengine_field env fld w = convert_mongoengine_field_call env False fld w"

section \<open>Connection field: derived arguments\<close>

subsection \<open>Models, bound types and the field\<close>

text \<open>
  What \<open>getattr(model, k)\<close> can find on a document class: a field object, a property,
  or some other attribute.
\<close>

datatype attr = FieldAttr mfield | PropertyAttr | OtherAttr

record model =
  model_name :: string
  attrs :: "(string \<times> attr) list"
  objects_callable :: bool

text \<open>
  The \<open>_meta\<close> of the bound object type as the connection field reads it.  The mounted
  fields are \<open>Field\<close>, the map helper's field, \<open>Dynamic\<close> or a connection field.
  \<open>has_connection\<close> says whether \<open>_meta.connection\<close> is set; a \<open>filter_fields\<close> option
  that was not given is the empty dict, which the code treats alike.
\<close>

record type_meta =
  meta_fields :: "(string \<times> gfield) list"
  filter_fields :: "(string \<times> string list) list"
  meta_searchable :: bool
  meta_model :: model
  has_connection :: bool

text \<open>A value in an argument dict: an unmounted instance, an \<open>Argument\<close>, or another object.\<close>

datatype argvalue = AInst gtype | Argument gtype | AObject

subsection \<open>Library functions used on arguments\<close>

text \<open>
  \<open>to_arguments\<close> of the API library: mount every unmounted instance, refuse what is not
  an argument, and assert that no name occurs twice.  The library then orders the extra
  arguments by creation time; the result is kept here in dict order, which is the same
  mapping.
\<close>

definition is_unmounted_class :: "gtype \<Rightarrow> bool" where
  "is_unmounted_class t = (is_scalar t \<or> (case t of UnionType n ts \<Rightarrow> True | _ \<Rightarrow> False))"

fun mount_argument :: "argvalue \<Rightarrow> error + gtype" where
  "mount_argument (Argument t) = Inr t"
| "mount_argument (AInst t) = (if is_unmounted_class t then Inr t else Inl ValueError)"
| "mount_argument AObject = Inl ValueError"

fun to_arguments_loop ::
  "(string \<times> argvalue) list \<Rightarrow> (string \<times> gtype) list \<Rightarrow> error + (string \<times> gtype) list" where
  "to_arguments_loop [] arguments = Inr arguments"
| "to_arguments_loop ((arg_name, arg) # rest) arguments =
     (case mount_argument arg of
        Inl e \<Rightarrow> Inl e
      | Inr a \<Rightarrow>
          (if arg_name \<in> fst ` set arguments then Inl AssertionError
           else to_arguments_loop rest (arguments @ [(arg_name, a)])))"

definition to_arguments ::
  "(string \<times> gtype) list \<Rightarrow> (string \<times> argvalue) list \<Rightarrow> error + (string \<times> gtype) list" where
  "to_arguments base extra_args =
     to_arguments_loop (map (\<lambda>(n, t). (n, Argument t)) base @ extra_args) []"

text \<open>
  The connection field: the bound type and the base arguments stored by the \<open>args\<close>
  setter.  The base class of the API library passes \<open>before\<close>, \<open>after\<close>, \<open>first\<close> and
  \<open>last\<close> to the constructor, so these are the base arguments unless the declaration
  overrides them.
\<close>

record connection_field =
  bound_type :: type_meta
  base_args :: "(string \<times> gtype) list"

definition relay_base_args :: "(string \<times> gtype) list" where
  "relay_base_args =
     [(''before'', String), (''after'', String), (''first'', IntT), (''last'', IntT)]"

text \<open>
  The \<open>type\<close> property asserts that the bound type has a connection; \<open>node_type\<close>,
  \<open>model\<close> and \<open>searchable\<close> all go through it.
\<close>

definition node_type :: "connection_field \<Rightarrow> error + type_meta" where
  "node_type self =
     (if has_connection (bound_type self) then Inr (bound_type self) else Inl AssertionError)"

subsection \<open>Field arguments\<close>

text \<open>Is the object a class, so that \<open>issubclass\<close> accepts it?\<close>

fun is_class :: "gtype \<Rightarrow> bool" where
  "is_class (List _) = False"
| "is_class (NonNull _) = False"
| "is_class (Inst _) = False"
| "is_class NoneValue = False"
| "is_class (Closure _) = False"
| "is_class _ = True"

text \<open>
  The checks of \<open>is_filterable\<close> on the converted field, from the test for connection
  fields and Dynamics to the final \<open>return True\<close>.
\<close>

definition is_excluded_leaf :: "gtype \<Rightarrow> bool" where
  "is_excluded_leaf t =
     (t \<in> {FileFieldType, PointFieldType, MultiPolygonFieldType, PolygonFieldType}
      \<or> (case t of UnionType n ts \<Rightarrow> True | _ \<Rightarrow> False))"

definition of_type_is_scalar :: "gtype \<Rightarrow> error + bool" where
  "of_type_is_scalar x =
     (if x = NoneValue then Inr True
      else if \<not> is_class x then Inl TypeError
      else Inr (is_scalar x))"

definition of_type_check :: "gtype \<Rightarrow> error + bool" where
  "of_type_check t =
     (case t of
        List x \<Rightarrow> of_type_is_scalar x
      | NonNull x \<Rightarrow> of_type_is_scalar x
      | _ \<Rightarrow> Inr True)"

fun filterable_converted :: "gfield option \<Rightarrow> error + bool" where
  "filterable_converted None = Inr True"
| "filterable_converted (Some (ConnectionField t)) = Inr False"
| "filterable_converted (Some (Dynamic m f lz)) = Inr False"
| "filterable_converted (Some (Unmounted t d r)) = Inr True"
| "filterable_converted (Some (ListInstance t d r)) =
     (if \<not> is_class t then Inl TypeError else Inr (is_scalar t))"
| "filterable_converted (Some (Field t d r)) =
     (if is_class (Field_type t r) \<and> is_excluded_leaf (Field_type t r) then Inr False
      else of_type_check (Field_type t r))"
| "filterable_converted (Some (MapFieldHelper t d r)) =
     (if is_class (Field_type t r) \<and> is_excluded_leaf (Field_type t r) then Inr False
      else of_type_check (Field_type t r))"

definition is_filterable ::
  "env \<Rightarrow> connection_field \<Rightarrow> string \<Rightarrow> world \<Rightarrow> (error + bool) \<times> world" where
  "is_filterable env self k w =
     (case node_type self of
        Inl e \<Rightarrow> (Inl e, w)
      | Inr nt \<Rightarrow>
          (case dict_get (attrs (meta_model nt)) k of
             None \<Rightarrow> (Inr False, w)
           | Some PropertyAttr \<Rightarrow> (Inr False, w)
           | Some OtherAttr \<Rightarrow> (Inr False, w)
           | Some (FieldAttr f) \<Rightarrow>
               (case convert_mongoengine_field env f w of
                  (Inl (MongoEngineConversionError msg), w') \<Rightarrow> (Inr False, w')
                | (Inl e, w') \<Rightarrow> (Inl e, w')
                | (Inr converted, w') \<Rightarrow> (filterable_converted converted, w'))))"

text \<open>The \<open>type\<close> attribute of a mounted field, and \<open>get_filter_type\<close>.\<close>

fun type_of_field :: "gfield \<Rightarrow> error + gtype" where
  "type_of_field (Field t d r) = Inr (Field_type t r)"
| "type_of_field (MapFieldHelper t d r) = Inr (Field_type t r)"
| "type_of_field (Dynamic m f lz) = Inr (Closure m)"
| "type_of_field (ConnectionField t) = Inr (ConnectionType t)"
| "type_of_field (Unmounted t d r) = Inl AttributeError"
| "type_of_field (ListInstance t d r) = Inl AttributeError"

fun innermost :: "gtype \<Rightarrow> gtype" where
  "innermost (List t) = innermost t"
| "innermost (NonNull t) = innermost t"
| "innermost t = t"

definition get_filter_type :: "gtype \<Rightarrow> error + argvalue" where
  "get_filter_type t =
     (case innermost t of
        Closure m \<Rightarrow> Inr AObject
      | t' \<Rightarrow> (if is_class t' then Inr (AInst t') else Inl TypeError))"

text \<open>The dict comprehension of \<open>_field_args\<close>, item by item.\<close>

fun field_args_loop ::
  "env \<Rightarrow> connection_field \<Rightarrow> (string \<times> gfield) list \<Rightarrow> (string \<times> argvalue) list \<Rightarrow> world
     \<Rightarrow> (error + (string \<times> argvalue) list) \<times> world" where
  "field_args_loop env self [] acc w = (Inr acc, w)"
| "field_args_loop env self ((k, v) # rest) acc w =
     (case is_filterable env self k w of
        (Inl e, w') \<Rightarrow> (Inl e, w')
      | (Inr False, w') \<Rightarrow> field_args_loop env self rest acc w'
      | (Inr True, w') \<Rightarrow>
          (case type_of_field v of
             Inl e \<Rightarrow> (Inl e, w')
           | Inr t \<Rightarrow>
               (case get_filter_type t of
                  Inl e \<Rightarrow> (Inl e, w')
                | Inr a \<Rightarrow> field_args_loop env self rest (dict_set acc k a) w')))"

definition field_args ::
  "env \<Rightarrow> connection_field \<Rightarrow> world \<Rightarrow> (error + (string \<times> argvalue) list) \<times> world" where
  "field_args env self w = field_args_loop env self (meta_fields (bound_type self)) [] w"

subsection \<open>Filter arguments\<close>

text \<open>
  The argument built for one operator, after the \<open>while\<close> loop (\<open>innermost\<close>) has
  unwrapped the structures.
\<close>

definition filter_argument :: "gtype \<Rightarrow> string \<Rightarrow> argvalue" where
  "filter_argument filter_type each =
     (if each \<in> {''in'', ''nin'', ''all''} then Argument (List filter_type)
      else Argument filter_type)"

fun filter_collection_loop ::
  "connection_field \<Rightarrow> string \<Rightarrow> string list \<Rightarrow> (string \<times> argvalue) list
     \<Rightarrow> error + (string \<times> argvalue) list" where
  "filter_collection_loop self fname [] acc = Inr acc"
| "filter_collection_loop self fname (each # rest) acc =
     (case dict_get (meta_fields (bound_type self)) fname of
        None \<Rightarrow> Inl KeyError
      | Some v \<Rightarrow>
          (case type_of_field v of
             Inl e \<Rightarrow> Inl e
           | Inr t \<Rightarrow>
               filter_collection_loop self fname rest
                 (dict_set acc (fname @ ''__'' @ each)
                    (filter_argument (innermost t) each))))"

fun filter_fields_loop ::
  "connection_field \<Rightarrow> (string \<times> string list) list \<Rightarrow> (string \<times> argvalue) list
     \<Rightarrow> error + (string \<times> argvalue) list" where
  "filter_fields_loop self [] acc = Inr acc"
| "filter_fields_loop self ((fname, filter_collection) # rest) acc =
     (case filter_collection_loop self fname filter_collection acc of
        Inl e \<Rightarrow> Inl e
      | Inr acc' \<Rightarrow> filter_fields_loop self rest acc')"

definition filter_args :: "connection_field \<Rightarrow> error + (string \<times> argvalue) list" where
  "filter_args self =
     (if filter_fields (bound_type self) \<noteq> []
      then filter_fields_loop self (filter_fields (bound_type self)) []
      else Inr [])"

subsection \<open>Reference arguments\<close>

text \<open>Calling a class gives an instance; calling a closure gives what it returns.\<close>

definition instantiate :: "gtype \<Rightarrow> error + argvalue" where
  "instantiate t =
     (case t of
        Closure m \<Rightarrow> Inr AObject
      | _ \<Rightarrow> (if is_class t then Inr (AInst t) else Inl TypeError))"

text \<open>
  The argument for a resolved target type: the type behind the \<open>id\<close> field's structure,
  when the target has an \<open>id\<close> field and its model is not an embedded document.
\<close>

definition id_argument :: "gtype \<Rightarrow> error + argvalue option" where
  "id_argument t =
     (case t of
        ObjectType n node embedded idt \<Rightarrow>
          (case idt of
             None \<Rightarrow> Inr None
           | Some id_type \<Rightarrow>
               (if embedded then Inr None
                else (case id_type of
                        NonNull x \<Rightarrow> map_sum id Some (instantiate x)
                      | List x \<Rightarrow> map_sum id Some (instantiate x)
                      | _ \<Rightarrow> Inl AttributeError)))
      | _ \<Rightarrow> Inl AttributeError)"

text \<open>
  The second half of \<open>get_reference_field\<close>: only an object with a \<open>get_type\<close> method is
  looked at.  A Dynamic's closure builds a \<open>Field\<close>.
\<close>

definition reference_value :: "env \<Rightarrow> gfield option \<Rightarrow> error + argvalue option" where
  "reference_value env fld =
     (case fld of
        Some (Dynamic m f lz) \<Rightarrow>
          (case dynamic_type env m f of
             None \<Rightarrow> Inr None
           | Some g \<Rightarrow> (case g of Field t d r \<Rightarrow> id_argument (Field_type t r)
                                 | _ \<Rightarrow> Inl AttributeError))
      | Some (Unmounted t d r) \<Rightarrow> Inl AttributeError
      | Some (ListInstance t d r) \<Rightarrow> Inl AttributeError
      | _ \<Rightarrow> Inr None)"

definition is_reference_attr :: "attr option \<Rightarrow> bool" where
  "is_reference_attr a =
     (case a of
        Some (FieldAttr f) \<Rightarrow> kind f = LazyReferenceField \<or> kind f = ReferenceField
      | _ \<Rightarrow> False)"

fun reference_args_loop ::
  "env \<Rightarrow> connection_field \<Rightarrow> (string \<times> gfield) list \<Rightarrow> (string \<times> argvalue) list \<Rightarrow> world
     \<Rightarrow> (error + (string \<times> argvalue) list) \<times> world" where
  "reference_args_loop env self [] r w = (Inr r, w)"
| "reference_args_loop env self ((k, v) # rest) r w =
     (case node_type self of
        Inl e \<Rightarrow> (Inl e, w)
      | Inr nt \<Rightarrow>
          (case (case dict_get (attrs (meta_model nt)) k of
                   Some (FieldAttr f) \<Rightarrow>
                     (if is_reference_attr (Some (FieldAttr f))
                      then convert_mongoengine_field env f w
                      else (Inr (Some v), w))
                 | _ \<Rightarrow> (Inr (Some v), w)) of
             (Inl e, w') \<Rightarrow> (Inl e, w')
           | (Inr fld, w') \<Rightarrow>
               (case reference_value env fld of
                  Inl e \<Rightarrow> (Inl e, w')
                | Inr None \<Rightarrow> reference_args_loop env self rest r w'
                | Inr (Some a) \<Rightarrow> reference_args_loop env self rest (dict_set r k a) w')))"

definition reference_args ::
  "env \<Rightarrow> connection_field \<Rightarrow> world \<Rightarrow> (error + (string \<times> argvalue) list) \<times> world" where
  "reference_args env self w = reference_args_loop env self (meta_fields (bound_type self)) [] w"

subsection \<open>The argument set\<close>

definition args ::
  "env \<Rightarrow> connection_field \<Rightarrow> world \<Rightarrow> (error + (string \<times> gtype) list) \<times> world" where
  "args env self w =
     (case node_type self of
        Inl e \<Rightarrow> (Inl e, w)
      | Inr nt \<Rightarrow>
          (let extra_args = [(''order_by'', AInst String)]
                 @ (if meta_searchable nt then [(''search'', AInst String)] else [])
           in case field_args env self w of
                (Inl e, w1) \<Rightarrow> (Inl e, w1)
              | (Inr fa, w1) \<Rightarrow>
                  (case filter_args self of
                     Inl e \<Rightarrow> (Inl e, w1)
                   | Inr fl \<Rightarrow>
                       (case reference_args env self w1 of
                          (Inl e, w2) \<Rightarrow> (Inl e, w2)
                        | (Inr ra, w2) \<Rightarrow>
                            (to_arguments (base_args self)
                               (dict_update (dict_update (dict_update (dict_update [] fa) fl) ra)
                                  extra_args), w2)))))"

section \<open>Connection field: query resolution\<close>

subsection \<open>Queries and their environment\<close>










subsection \<open>\<open>get_queryset\<close>\<close>




subsection \<open>Slicing by cursor (relay library)\<close>









subsection \<open>\<open>default_resolver\<close>\<close>


section \<open>Reference tables and example inputs\<close>

text \<open>
  The documented table of scalar kinds (specification, section 4.1), written from the
  specification's words and compared below with what the dispatch table does.
\<close>

fun documented_scalar :: "kind \<Rightarrow> gtype option" where
  "documented_scalar StringField = Some String"
| "documented_scalar EmailField = Some String"
| "documented_scalar URLField = Some String"
| "documented_scalar UUIDField = Some ID"
| "documented_scalar ObjectIdField = Some ID"
| "documented_scalar IntField = Some IntT"
| "documented_scalar LongField = Some IntT"
| "documented_scalar SequenceField = Some IntT"
| "documented_scalar BooleanField = Some Boolean"
| "documented_scalar DecimalField = Some Float"
| "documented_scalar FloatField = Some Float"
| "documented_scalar DateTimeField = Some DateTime"
| "documented_scalar DictField = Some JSONString"
| "documented_scalar _ = None"

definition reference_kinds :: "kind set" where
  "reference_kinds =
     {EmbeddedDocumentField, ReferenceField, CachedReferenceField, LazyReferenceField}"

definition list_kinds :: "kind set" where
  "list_kinds = {ListField, EmbeddedDocumentListField}"

definition generic_kinds :: "kind set" where
  "generic_kinds = {GenericEmbeddedDocumentField, GenericReferenceField}"

fun is_dict :: "pyval \<Rightarrow> bool" where
  "is_dict (PDict _) = True"
| "is_dict _ = False"

text \<open>
  A small schema used to run the definitions: an \<open>Author\<close> model registered with a node
  type, an embedded \<open>Address\<close> model registered with a plain object type, and nothing
  registered for any other model.  The module-level cache starts empty.
\<close>

definition example_registry :: "string \<Rightarrow> gtype option" where
  "example_registry m =
     (if m = ''Author'' then Some (ObjectType ''AuthorType'' True False (Some (NonNull ID)))
      else if m = ''Address'' then Some (ObjectType ''AddressType'' False True None)
      else None)"

definition example_env :: env where
  "example_env =
     \<lparr>get_field_description = (\<lambda>f. Some (''The '' @ db_field (info f))),
      get_type_for_model = example_registry,
      uuid_hex = (\<lambda>n. ''5f1e2d3c4b5a11ee8c990242ac120002'')\<rparr>"

definition example_info :: "string \<Rightarrow> bool \<Rightarrow> finfo" where
  "example_info n req =
     \<lparr>required = req, db_field = n, owner_document = ''Person'', document_type = [],
      choices = [], py_str = ''<field '' @ n @ ''>''\<rparr>"

definition initial_world :: world where
  "initial_world = \<lparr>entry_type_lookup = [], allocated = 0\<rparr>"

definition example_reference :: "string \<Rightarrow> string \<Rightarrow> string list \<Rightarrow> finfo" where
  "example_reference n target cs =
     \<lparr>required = False, db_field = n, owner_document = ''Person'', document_type = target,
      choices = cs, py_str = ''<field '' @ n @ ''>''\<rparr>"

text \<open>
  The model of the specification's example: a string field \<open>name\<close> and an integer field
  \<open>age\<close>, their mounted fields on the bound type, and the argument set that the
  specification documents for the filter configuration \<open>{age: [gt, in]}\<close>.
\<close>

definition person_attrs :: "finfo \<Rightarrow> finfo \<Rightarrow> (string \<times> attr) list" where
  "person_attrs i1 i2 =
     [(''name'', FieldAttr (MField StringField i1 None)),
      (''age'', FieldAttr (MField IntField i2 None))]"

definition person_fields ::
  "string option \<Rightarrow> bool \<Rightarrow> string option \<Rightarrow> bool \<Rightarrow> (string \<times> gfield) list" where
  "person_fields d1 r1 d2 r2 = [(''name'', Field String d1 r1), (''age'', Field IntT d2 r2)]"

definition person_arguments :: "bool \<Rightarrow> (string \<times> gtype) set" where
  "person_arguments searchable =
     {(''first'', IntT), (''last'', IntT), (''before'', String), (''after'', String),
      (''order_by'', String), (''name'', String), (''age'', IntT),
      (''age__gt'', IntT), (''age__in'', List IntT)}
     \<union> (if searchable then {(''search'', String)} else {})"

definition person_model :: model where
  "person_model =
     \<lparr>model_name = ''Person'',
      attrs = person_attrs (example_info ''name'' True) (example_info ''age'' False),
      objects_callable = True\<rparr>"

definition person_type :: type_meta where
  "person_type =
     \<lparr>meta_fields = person_fields (Some ''The name'') True (Some ''The age'') False,
      filter_fields = [(''age'', [''gt'', ''in''])],
      meta_searchable = True,
      meta_model = person_model,
      has_connection = True\<rparr>"

definition person_connection :: connection_field where
  "person_connection = \<lparr>bound_type = person_type, base_args = relay_base_args\<rparr>"




section \<open>Properties of the conversion\<close>

lemmas scalar_defs = convert_field_to_string_def convert_field_to_id_def convert_field_to_int_def
  convert_field_to_boolean_def convert_field_to_float_def convert_field_to_datetime_def
  convert_field_to_jsonstring_def

lemmas example_defs = example_env_def example_info_def example_registry_def initial_world_def

lemma convert_call_scalar:
  "documented_scalar k = Some t \<Longrightarrow>
   convert_mongoengine_field_call env kw (MField k i fo) w =
     (Inr (Some (Unmounted t (get_field_description env (MField k i fo)) (required i))), w)"
  by (cases k) (simp_all add: scalar_defs)

lemma convert_scalar:
  "documented_scalar k = Some t \<Longrightarrow>
   convert_mongoengine_field env (MField k i fo) w =
     (Inr (Some (Unmounted t (get_field_description env (MField k i fo)) (required i))), w)"
  by (simp add: convert_mongoengine_field_def convert_call_scalar)

lemma union_types_eq:
  "union_types env fld cs acc = acc @ List.map_filter (get_type_for_model env) cs"
  by (induction cs arbitrary: acc)
     (auto simp: convert_field_to_dynamic_def dynamic_type_def choice_field_def Field_type_def
        List.map_filter_simps split: option.splits)

lemma convert_call_reference:
  "k \<in> reference_kinds \<Longrightarrow>
   convert_mongoengine_field_call env kw (MField k i fo) w =
     (Inr (Some (Dynamic (document_type i) (MField k i fo) (k = LazyReferenceField))), w)"
  by (auto simp: reference_kinds_def convert_field_to_dynamic_def
        convert_lazy_field_to_dynamic_def)

lemma convert_reference:
  "k \<in> reference_kinds \<Longrightarrow>
   convert_mongoengine_field env (MField k i fo) w =
     (Inr (Some (Dynamic (document_type i) (MField k i fo) (k = LazyReferenceField))), w)"
  by (simp add: convert_mongoengine_field_def convert_call_reference)

lemma convert_call_list_of:
  "lk \<in> list_kinds \<Longrightarrow>
   convert_mongoengine_field_call env kw (MField lk i (Some f)) w =
     (case convert_mongoengine_field_call env True f w of
        (Inl e, w') \<Rightarrow> (Inl e, w')
      | (Inr base, w') \<Rightarrow> convert_field_to_list env (MField lk i (Some f)) base w')"
  by (auto simp: list_kinds_def)

lemma convert_list_of:
  "lk \<in> list_kinds \<Longrightarrow>
   convert_mongoengine_field env (MField lk i (Some f)) w =
     (case convert_mongoengine_field_call env True f w of
        (Inl e, w') \<Rightarrow> (Inl e, w')
      | (Inr base, w') \<Rightarrow> convert_field_to_list env (MField lk i (Some f)) base w')"
  by (simp add: convert_mongoengine_field_def convert_call_list_of)

lemma convert_call_generic:
  "k \<in> generic_kinds \<Longrightarrow>
   convert_mongoengine_field_call env kw (MField k i fo) w
     = convert_field_to_union env (MField k i fo) w"
  by (auto simp: generic_kinds_def)

lemma convert_generic:
  "k \<in> generic_kinds \<Longrightarrow>
   convert_mongoengine_field env (MField k i fo) w = convert_field_to_union env (MField k i fo) w"
  by (simp add: convert_mongoengine_field_def convert_call_generic)

text \<open>
  C4.  Every field of a supported scalar kind converts to the documented scalar type, and
  the result carries the source field's required flag (and leaves the cache untouched).
\<close>

theorem C4_scalar_kinds_keep_required:
  "documented_scalar k = Some t \<Longrightarrow>
   convert_mongoengine_field env (MField k i fo) w =
     (Inr (Some (Unmounted t (get_field_description env (MField k i fo)) (required i))), w)"
  by (rule convert_scalar)

theorem C4_scalar_kinds_keep_required_witness:
  "documented_scalar IntField = Some IntT \<and>
   convert_mongoengine_field example_env (MField IntField (example_info ''age'' True) None)
       initial_world
     = (Inr (Some (Unmounted IntT (Some ''The age'') True)), initial_world)"
  using C4_scalar_kinds_keep_required
          [of IntField IntT example_env "example_info ''age'' True" None initial_world]
  by (simp add: example_defs)


text \<open>
  C5.  The claim that every dispatch rule carries the source field's required flag and
  description fails on the point, polygon, multi-polygon and file rules: they build
  \<open>graphene.Field(T)\<close> with no keyword argument, while the scalar, list and map rules
  beside them pass both.  A required point field with a description converts to a field
  that is not required and has no description.
\<close>

theorem C5_point_field_drops_required_and_description:
  "required (example_info ''location'' True)
   \<and> get_field_description example_env (MField PointField (example_info ''location'' True) None)
       = Some ''The location''
   \<and> convert_mongoengine_field example_env
         (MField PointField (example_info ''location'' True) None) initial_world
       = (Inr (Some (Field PointFieldType None False)), initial_world)
   \<and> convert_mongoengine_field example_env
         (MField StringField (example_info ''location'' True) None) initial_world
       = (Inr (Some (Unmounted String (Some ''The location'') True)), initial_world)"
  by (simp add: example_defs convert_mongoengine_field_def convert_point_to_field_def
        convert_field_to_string_def)

lemma unknown_kind_raises:
  "convert_mongoengine_field env (MField (OtherField c) i fo) w =
     (Inl (MongoEngineConversionError
        (''Don't know how to convert the MongoEngine field '' @ py_str i @ '' ('' @ c @ '')'')), w)"
  by (simp add: convert_mongoengine_field_def convert_default_def conversion_message_def)

lemma unresolved_reference_is_deferred:
  "k \<in> reference_kinds \<Longrightarrow> get_type_for_model env (document_type i) = None \<Longrightarrow>
   \<exists>model f lz. convert_mongoengine_field env (MField k i fo) w
                    = (Inr (Some (Dynamic model f lz)), w)
      \<and> dynamic_type env model f = None"
  by (simp add: convert_reference dynamic_type_def)

lemma list_of_unresolved_reference_is_absent:
  "lk \<in> list_kinds \<Longrightarrow> k \<in> reference_kinds \<Longrightarrow>
   get_type_for_model env (document_type j) = None \<Longrightarrow>
   convert_mongoengine_field env (MField lk i (Some (MField k j fo))) w = (Inr None, w)"
  by (simp add: convert_list_of convert_call_reference convert_field_to_list_def dynamic_type_def)

lemma map_of_unresolved_reference_is_absent:
  "k \<in> reference_kinds \<Longrightarrow> get_type_for_model env (document_type j) = None \<Longrightarrow>
   convert_mongoengine_field env (MField MapField i (Some (MField k j fo))) w = (Inr None, w)"
  by (simp add: convert_mongoengine_field_def convert_call_reference convert_field_to_map_def
        dynamic_type_def)

lemma generic_without_registered_choice_is_absent:
  assumes k: "k \<in> generic_kinds"
    and un: "\<forall>c \<in> set (choices i). get_type_for_model env c = None"
  shows "convert_mongoengine_field env (MField k i fo) w = (Inr None, w)"
proof -
  have "List.map_filter (get_type_for_model env) (choices i) = []"
    using un by (induction "choices i") (auto simp: List.map_filter_def)
  then show ?thesis
    using k by (simp add: convert_generic convert_field_to_union_def union_types_eq)
qed

text \<open>
  C6.  An unknown kind raises the conversion error with the field and its class in the
  message (\<open>unknown_kind_raises\<close>), and a reference whose target is not registered, a
  list or map directly of such a reference, and a generic field with no registered choice
  do not raise and yield nothing (the four lemmas above).  One container deeper the code
  no longer yields absent.  The list converter returns nothing when the Dynamic of its
  element resolves to nothing, but when the element conversion itself returned nothing
  it goes on with \<open>type(None)\<close>: a list of a list of an unresolved reference converts to
  a list of \<open>NoneType\<close>, and a map of such a list raises an attribute error.
\<close>

theorem C6_nested_unresolved_reference_is_not_absent:
  "get_type_for_model example_env ''Publisher'' = None
   \<and> convert_mongoengine_field example_env
        (MField ListField (example_info ''publishers'' False)
           (Some (MField ReferenceField (example_reference ''publisher'' ''Publisher'' []) None)))
        initial_world
       = (Inr None, initial_world)
   \<and> convert_mongoengine_field example_env
        (MField ListField (example_info ''shelves'' False)
           (Some (MField ListField (example_info ''publishers'' False)
              (Some (MField ReferenceField (example_reference ''publisher'' ''Publisher'' [])
                 None)))))
        initial_world
       = (Inr (Some (ListInstance NoneType (Some ''The shelves'') False)), initial_world)
   \<and> convert_mongoengine_field example_env
        (MField MapField (example_info ''shelves'' False)
           (Some (MField ListField (example_info ''publishers'' False)
              (Some (MField ReferenceField (example_reference ''publisher'' ''Publisher'' [])
                 None)))))
        initial_world
       = (Inl AttributeError, initial_world)"
  by (simp add: example_defs example_reference_def convert_mongoengine_field_def
        convert_field_to_dynamic_def convert_field_to_list_def convert_field_to_map_def
        map_of_base_type_def list_of_base_type_def dynamic_type_def element_is_relation_def
        MapField_init_def get_entry_type_def)

text \<open>
  C7.  A list (or embedded-document list) whose element is a reference kind that resolves
  to a node type converts to a connection field on that type; a list whose element is a
  scalar kind converts to a plain list of the scalar type with the list field's own
  description and required flag.
\<close>

theorem C7_list_of_nodes_is_connection_list_of_scalars_is_list:
  "lk \<in> list_kinds \<longrightarrow>
     (\<forall>k \<in> reference_kinds. get_type_for_model env (document_type j) = Some t \<and> is_node t \<longrightarrow>
        convert_mongoengine_field env (MField lk i (Some (MField k j fo))) w
          = (Inr (Some (ConnectionField t)), w))
   \<and> (documented_scalar k' = Some s \<longrightarrow>
        convert_mongoengine_field env (MField lk i (Some (MField k' j fo))) w
          = (Inr (Some (ListInstance s
                (get_field_description env (MField lk i (Some (MField k' j fo)))) (required i))), w))"
proof (intro impI conjI ballI)
  fix k assume "lk \<in> list_kinds" "k \<in> reference_kinds"
    "get_type_for_model env (document_type j) = Some t \<and> is_node t"
  then show "convert_mongoengine_field env (MField lk i (Some (MField k j fo))) w
          = (Inr (Some (ConnectionField t)), w)"
    by (simp add: convert_list_of convert_call_reference convert_field_to_list_def
          dynamic_type_def list_of_base_type_def Field_type_def)
next
  assume lk: "lk \<in> list_kinds" and s: "documented_scalar k' = Some s"
  have nr: "\<not> element_is_relation (MField lk i (Some (MField k' j fo)))"
    using s by (auto simp: element_is_relation_def)
  show "convert_mongoengine_field env (MField lk i (Some (MField k' j fo))) w
          = (Inr (Some (ListInstance s
                (get_field_description env (MField lk i (Some (MField k' j fo)))) (required i))), w)"
    using lk nr by (simp add: convert_list_of convert_call_scalar [OF s]
          convert_field_to_list_def list_of_base_type_def)
qed

theorem C7_list_of_nodes_is_connection_list_of_scalars_is_list_witness:
  "ListField \<in> list_kinds \<and> ReferenceField \<in> reference_kinds
   \<and> get_type_for_model example_env ''Author''
       = Some (ObjectType ''AuthorType'' True False (Some (NonNull ID)))
   \<and> is_node (ObjectType ''AuthorType'' True False (Some (NonNull ID)))
   \<and> documented_scalar StringField = Some String
   \<and> convert_mongoengine_field example_env
        (MField ListField (example_info ''authors'' True)
           (Some (MField ReferenceField (example_reference ''author'' ''Author'' []) None)))
        initial_world
       = (Inr (Some (ConnectionField (ObjectType ''AuthorType'' True False (Some (NonNull ID))))),
          initial_world)
   \<and> convert_mongoengine_field example_env
        (MField ListField (example_info ''authors'' True)
           (Some (MField StringField (example_reference ''author'' ''Author'' []) None)))
        initial_world
       = (Inr (Some (ListInstance String (Some ''The authors'') True)), initial_world)"
  using C7_list_of_nodes_is_connection_list_of_scalars_is_list
          [of ListField example_env "example_reference ''author'' ''Author'' []"
              "ObjectType ''AuthorType'' True False (Some (NonNull ID))"
              "example_info ''authors'' True" None initial_world StringField String]
  by (simp add: example_defs example_reference_def reference_kinds_def list_kinds_def)

text \<open>
  C8.  A generic reference or generic embedded field converts to nothing when none of its
  choices is registered, and otherwise to a field on a synthesized union whose members are
  the types of the registered choices, one member per such choice.
\<close>

theorem C8_generic_union_members:
  "k \<in> generic_kinds \<Longrightarrow>
   (let resolvable = filter (\<lambda>c. get_type_for_model env c \<noteq> None) (choices i);
        result = fst (convert_mongoengine_field env (MField k i fo) w)
    in (resolvable = [] \<longrightarrow> result = Inr None)
     \<and> (resolvable \<noteq> [] \<longrightarrow>
          (\<exists>name members. result = Inr (Some (Field (UnionType name members) None False))
             \<and> members = map (\<lambda>c. the (get_type_for_model env c)) resolvable
             \<and> length members = length resolvable)))"
  by (auto simp: Let_def convert_generic convert_field_to_union_def union_types_eq
        List.map_filter_def comp_def)

theorem C8_generic_union_members_witness:
  "GenericReferenceField \<in> generic_kinds
   \<and> filter (\<lambda>c. get_type_for_model example_env c \<noteq> None) [''Author'', ''Publisher'', ''Address'']
       = [''Author'', ''Address'']
   \<and> fst (convert_mongoengine_field example_env
        (MField GenericReferenceField
           (example_reference ''likes'' [] [''Author'', ''Publisher'', ''Address'']) None)
        initial_world)
       = Inr (Some (Field (UnionType ''Person_likes_union_5f1e2d3c4b5a11ee8c990242ac120002''
                [ObjectType ''AuthorType'' True False (Some (NonNull ID)),
                 ObjectType ''AddressType'' False True None]) None False))
   \<and> filter (\<lambda>c. get_type_for_model example_env c \<noteq> None) [''Publisher''] = []
   \<and> fst (convert_mongoengine_field example_env
        (MField GenericReferenceField (example_reference ''likes'' [] [''Publisher'']) None)
        initial_world)
       = Inr None"
  using C8_generic_union_members
          [of GenericReferenceField example_env
              "example_reference ''likes'' [] [''Author'', ''Publisher'', ''Address'']" None
              initial_world]
        C8_generic_union_members
          [of GenericReferenceField example_env
              "example_reference ''likes'' [] [''Publisher'']" None initial_world]
  by (simp add: example_defs example_reference_def generic_kinds_def
        convert_mongoengine_field_def convert_field_to_union_def convert_field_to_dynamic_def
        choice_field_def dynamic_type_def Field_type_def Let_def)

section \<open>Properties of the map helper\<close>




lemma resolve_map_defined: "(\<exists>r. resolve_map v = Inr r) = is_dict v"
  by (cases v) simp_all



text \<open>
  C10.  The map resolver applies the entry projection to whatever the underlying resolver
  returns, at once or chained after a thenable.  The projection is defined exactly on
  dicts.  When the resolver returns \<open>None\<close> the result is an attribute error, now or
  when the thenable settles: \<open>None\<close> is not passed through.
\<close>

theorem C10_map_resolver_projects_unconditionally:
  "map_resolver resolver root ctx arguments =
     (case resolver root ctx arguments of
        Now (Inl e) \<Rightarrow> Now (Inl e)
      | Now (Inr v) \<Rightarrow> Now (resolve_map v)
      | Later (Inl e) \<Rightarrow> Later (Inl e)
      | Later (Inr v) \<Rightarrow> Later (resolve_map v))
   \<and> ((\<exists>r. resolve_map v = Inr r) = is_dict v)
   \<and> (resolver root ctx arguments = Now (Inr PNone) \<longrightarrow>
        map_resolver resolver root ctx arguments = Now (Inl AttributeError))
   \<and> (resolver root ctx arguments = Later (Inr PNone) \<longrightarrow>
        map_resolver resolver root ctx arguments = Later (Inl AttributeError))"
  by (auto simp: map_resolver_def resolve_map_defined split: settled.splits sum.splits)

theorem C10_map_resolver_projects_unconditionally_witness:
  "map_resolver (\<lambda>r c a. Now (Inr PNone)) () () () = Now (Inl AttributeError)
   \<and> map_resolver (\<lambda>r c a. Later (Inr PNone)) () () () = Later (Inl AttributeError)
   \<and> map_resolver (\<lambda>r c a. Later (Inr (PDict [(PStr ''a'', PInt 1)]))) () () ()
       = Later (Inr (PList [PDict [(PStr ''key'', PStr ''a''), (PStr ''value'', PInt 1)]]))"
  using C10_map_resolver_projects_unconditionally
          [of "\<lambda>r c a. Now (Inr PNone)" "()" "()" "()" PNone]
        C10_map_resolver_projects_unconditionally
          [of "\<lambda>r c a. Later (Inr PNone)" "()" "()" "()" PNone]
        C10_map_resolver_projects_unconditionally
          [of "\<lambda>r c a. Later (Inr (PDict [(PStr ''a'', PInt 1)]))" "()" "()" "()" PNone]
  by simp

section \<open>Properties of the derived arguments\<close>

lemma mset_two: "mset xs = mset [a, b] \<Longrightarrow> xs = [a, b] \<or> xs = [b, a]"
proof -
  assume h: "mset xs = mset [a, b]"
  then have "length xs = length [a, b]" by (rule mset_eq_length)
  then obtain x y where xs: "xs = [x, y]"
    by (cases xs; cases "tl xs") auto
  with h have "{#x, y#} = {#a, b#}" by simp
  then have "(x = a \<and> y = b) \<or> (x = b \<and> y = a)"
    by (auto simp: add_eq_conv_ex)
  with xs show ?thesis by auto
qed

lemma is_filterable_scalar:
  "has_connection (bound_type self) \<Longrightarrow>
   dict_get (attrs (meta_model (bound_type self))) k = Some (FieldAttr (MField kd i fo)) \<Longrightarrow>
   documented_scalar kd = Some t \<Longrightarrow>
   is_filterable env self k w = (Inr True, w)"
  by (simp add: is_filterable_def node_type_def convert_scalar)

lemma attrs_lookup:
  assumes a: "mset (attrs (meta_model (bound_type self))) = mset (person_attrs i1 i2)"
  shows "dict_get (attrs (meta_model (bound_type self))) ''name''
           = Some (FieldAttr (MField StringField i1 None))"
    and "dict_get (attrs (meta_model (bound_type self))) ''age''
           = Some (FieldAttr (MField IntField i2 None))"
  using mset_two [OF a [unfolded person_attrs_def]] by (auto simp: dict_get_def)

lemma fields_lookup:
  assumes f: "mset (meta_fields (bound_type self)) = mset (person_fields d1 r1 d2 r2)"
  shows "dict_get (meta_fields (bound_type self)) ''age'' = Some (Field IntT d2 r2)"
    and "dict_get (meta_fields (bound_type self)) ''name'' = Some (Field String d1 r1)"
  using mset_two [OF f [unfolded person_fields_def]] by (auto simp: dict_get_def)

lemma fields_order:
  assumes f: "mset (meta_fields (bound_type self)) = mset (person_fields d1 r1 d2 r2)"
  shows "meta_fields (bound_type self) = person_fields d1 r1 d2 r2
       \<or> meta_fields (bound_type self) = rev (person_fields d1 r1 d2 r2)"
  using mset_two [OF f [unfolded person_fields_def]] by (simp add: person_fields_def)

lemma field_args_person:
  assumes conn: "has_connection (bound_type self)"
    and a: "mset (attrs (meta_model (bound_type self))) = mset (person_attrs i1 i2)"
    and f: "mset (meta_fields (bound_type self)) = mset (person_fields d1 r1 d2 r2)"
  shows "field_args env self w = (Inr [(''name'', AInst String), (''age'', AInst IntT)], w)
       \<or> field_args env self w = (Inr [(''age'', AInst IntT), (''name'', AInst String)], w)"
proof -
  have fn: "is_filterable env self ''name'' w = (Inr True, w)" for w
    using is_filterable_scalar [OF conn attrs_lookup(1) [OF a]] by simp
  have fg: "is_filterable env self ''age'' w = (Inr True, w)" for w
    using is_filterable_scalar [OF conn attrs_lookup(2) [OF a]] by simp
  have gs: "get_filter_type (Field_type String r1) = Inr (AInst String)"
    and gi: "get_filter_type (Field_type IntT r2) = Inr (AInst IntT)"
    by (simp_all add: get_filter_type_def Field_type_def)
  show ?thesis
    using fields_order [OF f]
    by (auto simp: field_args_def person_fields_def fn fg gs gi dict_set_def)
qed

lemma filter_args_person:
  assumes f: "mset (meta_fields (bound_type self)) = mset (person_fields d1 r1 d2 r2)"
    and c: "filter_fields (bound_type self) = [(''age'', ops)]"
    and o: "mset ops = mset [''gt'', ''in'']"
  shows "filter_args self = Inr [(''age__gt'', Argument IntT), (''age__in'', Argument (List IntT))]
       \<or> filter_args self = Inr [(''age__in'', Argument (List IntT)), (''age__gt'', Argument IntT)]"
proof -
  have "ops = [''gt'', ''in''] \<or> ops = [''in'', ''gt'']"
    using mset_two [OF o] by simp
  moreover have "innermost (Field_type IntT r2) = IntT"
    by (simp add: Field_type_def)
  ultimately show ?thesis
    by (auto simp: filter_args_def c fields_lookup [OF f] filter_argument_def dict_set_def)
qed

lemma reference_args_person:
  assumes conn: "has_connection (bound_type self)"
    and a: "mset (attrs (meta_model (bound_type self))) = mset (person_attrs i1 i2)"
    and f: "mset (meta_fields (bound_type self)) = mset (person_fields d1 r1 d2 r2)"
  shows "reference_args env self w = (Inr [], w)"
  using fields_order [OF f]
  by (auto simp: reference_args_def person_fields_def node_type_def conn attrs_lookup [OF a]
        is_reference_attr_def reference_value_def)

text \<open>
  C1.  For a connection field bound to the model with the fields \<open>name\<close> (string) and
  \<open>age\<close> (integer), declared in any order, with the filter configuration
  \<open>{age: [gt, in]}\<close> in any order and the relay base arguments, the derived arguments are
  exactly the documented set: no name occurs twice, and \<open>search\<close> is among them exactly
  when the bound type is searchable.  The set does not depend on the order of the
  declarations, on the fields' required flags or descriptions, or on the state of the cache.
\<close>

theorem C1_argument_set_of_person_connection:
  assumes conn: "has_connection (bound_type self)"
    and base: "base_args self = relay_base_args"
    and a: "mset (attrs (meta_model (bound_type self))) = mset (person_attrs i1 i2)"
    and f: "mset (meta_fields (bound_type self)) = mset (person_fields d1 r1 d2 r2)"
    and c: "filter_fields (bound_type self) = [(''age'', ops)]"
    and o: "mset ops = mset [''gt'', ''in'']"
  shows "\<exists>arguments. args env self w = (Inr arguments, w)
           \<and> set arguments = person_arguments (meta_searchable (bound_type self))
           \<and> distinct (map fst arguments)
           \<and> ((''search'' \<in> fst ` set arguments) = meta_searchable (bound_type self))"
  using field_args_person [OF conn a f, of env w] filter_args_person [OF f c o]
  by (auto simp: args_def node_type_def conn base reference_args_person [OF conn a f]
        relay_base_args_def to_arguments_def dict_set_def is_unmounted_class_def is_scalar_def
        person_arguments_def)

theorem C1_argument_set_of_person_connection_witness:
  "has_connection (bound_type person_connection)
   \<and> base_args person_connection = relay_base_args
   \<and> mset (attrs (meta_model (bound_type person_connection)))
       = mset (person_attrs (example_info ''name'' True) (example_info ''age'' False))
   \<and> mset (meta_fields (bound_type person_connection))
       = mset (person_fields (Some ''The name'') True (Some ''The age'') False)
   \<and> filter_fields (bound_type person_connection) = [(''age'', [''gt'', ''in''])]
   \<and> (\<exists>arguments. args example_env person_connection initial_world = (Inr arguments, initial_world)
         \<and> set arguments = person_arguments True
         \<and> distinct (map fst arguments)
         \<and> ''search'' \<in> fst ` set arguments)"
  using C1_argument_set_of_person_connection
          [of person_connection "example_info ''name'' True" "example_info ''age'' False"
              "Some ''The name''" True "Some ''The age''" False "[''gt'', ''in'']"
              example_env initial_world]
  by (simp add: person_connection_def person_type_def person_model_def)

section \<open>Properties of query resolution\<close>

















section \<open>Properties of pagination\<close>















end
